theory Spec2Isabelle
  imports Main "HOL-Library.Word"
begin

section \<open>Values of the discovery layer\<close>

text \<open>
  Go's \<^verbatim>\<open>error\<close> values. The two sentinels \<^verbatim>\<open>ErrParseAddrToHostPort\<close> and
  \<^verbatim>\<open>ErrParsePort\<close> are package variables declared beside \<^verbatim>\<open>serf.go\<close>; every other
  error (of the transport, of a hook) is carried with its message.
\<close>

datatype error = ErrParseAddrToHostPort | ErrParsePort | OtherErr string

text \<open>The run-time panics that the code of \<^verbatim>\<open>serf.go\<close> can raise.\<close>

datatype panic = CloseNilChannel | CloseClosedChannel | NilDereference

text \<open>
  Modelled from the spec: the \<^verbatim>\<open>Member\<close> struct, \<^verbatim>\<open>NewSimpleMember\<close>, \<^verbatim>\<open>SetTags\<close> and
  \<^verbatim>\<open>GetTags\<close> are declared outside \<^verbatim>\<open>serf.go\<close>. A Member is an id, two endpoint
  strings and a tag mapping; \<^verbatim>\<open>serf.go\<close> also reads the field \<^verbatim>\<open>Routers\<close> (the comma
  separated seeds). The tags are copied verbatim.
\<close>

record Member =
  Id :: string
  Addr :: string
  Advertise :: string
  Routers :: string
  Tags :: "string \<rightharpoonup> string"

definition NewSimpleMember :: "string \<Rightarrow> string \<Rightarrow> string \<Rightarrow> Member" where
  "NewSimpleMember id' addr advertise =
     \<lparr>Id = id', Addr = addr, Advertise = advertise, Routers = [], Tags = Map.empty\<rparr>"

definition SetTags :: "Member \<Rightarrow> (string \<rightharpoonup> string) \<Rightarrow> Member" where
  "SetTags m tags = m\<lparr>Tags := tags\<rparr>"

definition GetTags :: "Member \<Rightarrow> (string \<rightharpoonup> string)" where
  "GetTags m = Tags m"

text \<open>
  The peer descriptor of the transport (\<^verbatim>\<open>serf.Member\<close>): \<^verbatim>\<open>Name\<close>, \<^verbatim>\<open>Addr\<close>, \<^verbatim>\<open>Port\<close>
  (a \<^verbatim>\<open>uint16\<close>) and \<^verbatim>\<open>Tags\<close>. \<open>Addr_peer\<close> holds the address as the text that the
  verb \<^verbatim>\<open>%s\<close> prints for it.
\<close>

record serf_Member =
  Name :: string
  Addr_peer :: string
  Port :: "16 word"
  Tags_peer :: "string \<rightharpoonup> string"

datatype EventType =
  EventMemberJoin | EventMemberLeave | EventMemberFailed | EventMemberUpdate
  | EventMemberReap | EventUser | EventQuery

text \<open>
  The transport's events. A \<^verbatim>\<open>MemberEvent\<close> carries its type and a batch of peer
  descriptors; user events and queries report the types \<open>EventUser\<close> and \<open>EventQuery\<close>.
\<close>

datatype Event =
  MemberEvent EventType "serf_Member list"
  | UserEvent string
  | Query string

fun EventType_of :: "Event \<Rightarrow> EventType" where
  "EventType_of (MemberEvent ty ms) = ty"
| "EventType_of (UserEvent n) = EventUser"
| "EventType_of (Query n) = EventQuery"

text \<open>
  Modelled from the spec: the \<^verbatim>\<open>Handler\<close> interface is declared outside \<^verbatim>\<open>serf.go\<close>. It has
  three hooks, each taking a Member and returning an error or nil. A handler is an object
  with a private state \<open>hstate\<close>, which a hook may read and change; a hook reads the Member
  it is given and does not write to it.
\<close>

record 'h Handler =
  hstate :: 'h
  OnMemberJoin :: "Member \<Rightarrow> 'h \<Rightarrow> error option \<times> 'h"
  OnMemberUpdate :: "Member \<Rightarrow> 'h \<Rightarrow> error option \<times> 'h"
  OnMemberLeave :: "Member \<Rightarrow> 'h \<Rightarrow> error option \<times> 'h"

text \<open>
  The observable steps of the code, in the order in which they happen: hook calls, writes
  to the registry, log lines and calls into the transport.
\<close>

datatype logarg = S string | E error

datatype Action =
  CallOnMemberJoin Member
  | CallOnMemberUpdate Member
  | CallOnMemberLeave Member
  | MembersStore string Member
  | MembersDelete string
  | LogPrintf string "logarg list"
  | TransportJoin "string list" bool
  | TransportShutdown

fun is_log :: "Action \<Rightarrow> bool" where
  "is_log (LogPrintf f as) = True"
| "is_log a = False"

text \<open>A channel: its capacity and whether it has been closed. A nil channel is \<open>None\<close>.\<close>

record chan =
  capacity :: nat
  closed :: bool

text \<open>The fields of the transport's configuration that \<^verbatim>\<open>Start\<close> sets.\<close>

record Config =
  AdvertiseAddr :: string
  AdvertisePort :: int
  BindAddr :: string
  BindPort :: int
  EventCh :: "chan option"
  NodeName :: string
  Tags_cfg :: "string \<rightharpoonup> string"

text \<open>
  The library functions that \<^verbatim>\<open>serf.go\<close> calls and does not define: \<^verbatim>\<open>net.SplitHostPort\<close>,
  \<^verbatim>\<open>strconv.Atoi\<close>, and the transport's \<^verbatim>\<open>serf.Create\<close>, \<^verbatim>\<open>Join(existing, ignoreOld)\<close>
  and \<^verbatim>\<open>Shutdown\<close>. \<open>'t\<close> is the state of a transport instance.
\<close>

record 't Env =
  net_SplitHostPort :: "string \<Rightarrow> error + string \<times> string"
  strconv_Atoi :: "string \<Rightarrow> error + int"
  serf_Create :: "Config \<Rightarrow> error + 't"
  serf_Join :: "'t \<Rightarrow> string list \<Rightarrow> bool \<Rightarrow> (int \<times> error option) \<times> 't"
  serf_Shutdown :: "'t \<Rightarrow> error option \<times> 't"

text \<open>
  The struct \<^verbatim>\<open>Serf\<close>. Pointers and the interface value are options (\<open>None\<close> is nil), the
  \<^verbatim>\<open>sync.Map\<close> is a map from ids to Members. \<open>loops\<close> counts the background tasks
  launched by \<^verbatim>\<open>go s.Loop()\<close>, \<open>trace\<close> lists the observable steps taken so far.
\<close>

record ('h, 't) Serf =
  events :: "chan option"
  member_loc :: "Member option"
  serf :: "'t option"
  handler :: "'h Handler option"
  members :: "string \<rightharpoonup> Member"
  loops :: nat
  trace :: "Action list"

section \<open>Library functions written out\<close>

text \<open>Decimal digits of a natural number, as \<^verbatim>\<open>%d\<close> prints them.\<close>

fun itoa :: "nat \<Rightarrow> string" where
  "itoa n = (if n < 10 then [''0123456789'' ! n]
             else itoa (n div 10) @ [''0123456789'' ! (n mod 10)])"

declare itoa.simps [simp del]

text \<open>\<^verbatim>\<open>strings.Split(s, sep)\<close> for a separator of one character.\<close>

fun strings_Split :: "string \<Rightarrow> char \<Rightarrow> string list" where
  "strings_Split [] sep = [[]]"
| "strings_Split (c # cs) sep =
     (if c = sep then [] # strings_Split cs sep
      else (case strings_Split cs sep of
              [] \<Rightarrow> [[c]]
            | w # ws \<Rightarrow> (c # w) # ws))"

section \<open>The facade\<close>

definition NewSerf :: "Member option \<Rightarrow> ('h, 't) Serf" where
  "NewSerf local =
     \<lparr>events = None, member_loc = local, serf = None, handler = None,
      members = Map.empty, loops = 0, trace = []\<rparr>"

definition LocalMember :: "('h, 't) Serf \<Rightarrow> panic + Member option" where
  "LocalMember s =
     (case member_loc s of
        None \<Rightarrow> Inl NilDereference
      | Some m \<Rightarrow> Inr (members s (Id m)))"

definition SetHandler :: "('h, 't) Serf \<Rightarrow> 'h Handler option \<Rightarrow> ('h, 't) Serf" where
  "SetHandler s h = s\<lparr>handler := h\<rparr>"

definition Stop :: "'t Env \<Rightarrow> ('h, 't) Serf \<Rightarrow> panic + ('h, 't) Serf" where
  "Stop env s =
     (let s1 = (case serf s of
                  None \<Rightarrow> s
                | Some t \<Rightarrow> s\<lparr>serf := Some (snd (serf_Shutdown env t)),
                              trace := trace s @ [TransportShutdown]\<rparr>)
      in case events s1 of
           None \<Rightarrow> Inl CloseNilChannel
         | Some c \<Rightarrow>
             if closed c then Inl CloseClosedChannel
             else Inr (s1\<lparr>events := Some (c\<lparr>closed := True\<rparr>)\<rparr>))"

definition splitHostPort :: "'t Env \<Rightarrow> string \<Rightarrow> error + string \<times> int" where
  "splitHostPort env addr =
     (case net_SplitHostPort env addr of
        Inl e \<Rightarrow> Inl ErrParseAddrToHostPort
      | Inr (h, p) \<Rightarrow>
          (case strconv_Atoi env p of
             Inl e \<Rightarrow> Inl ErrParsePort
           | Inr port \<Rightarrow> Inr (h, port)))"

definition Join ::
  "'t Env \<Rightarrow> ('h, 't) Serf \<Rightarrow> string list \<Rightarrow> panic + error option \<times> ('h, 't) Serf" where
  "Join env s ms =
     (case serf s of
        None \<Rightarrow> Inl NilDereference
      | Some t \<Rightarrow>
          (case serf_Join env t ms True of
             ((n, err), t') \<Rightarrow>
               Inr (err, s\<lparr>serf := Some t', trace := trace s @ [TransportJoin ms True]\<rparr>)))"

definition Start ::
  "'t Env \<Rightarrow> ('h, 't) Serf \<Rightarrow> panic + error option \<times> ('h, 't) Serf" where
  "Start env s =
     (let s1 = s\<lparr>events := Some \<lparr>capacity = 3, closed = False\<rparr>\<rparr> in
      case member_loc s1 of
        None \<Rightarrow> Inl NilDereference
      | Some m \<Rightarrow>
          (case splitHostPort env (Advertise m) of
             Inl err \<Rightarrow> Inr (Some err, s1)
           | Inr (ahost, aport) \<Rightarrow>
               (case splitHostPort env (Addr m) of
                  Inl err \<Rightarrow> Inr (Some err, s1)
                | Inr (bhost, bport) \<Rightarrow>
                    (case serf_Create env
                            \<lparr>AdvertiseAddr = ahost, AdvertisePort = aport,
                             BindAddr = bhost, BindPort = bport,
                             EventCh = events s1, NodeName = Id m,
                             Tags_cfg = GetTags m\<rparr> of
                       Inl err \<Rightarrow> Inr (Some err, s1\<lparr>serf := None\<rparr>)
                     | Inr t \<Rightarrow>
                         (let s2 = s1\<lparr>serf := Some t, loops := Suc (loops s1),
                                    trace := trace s1 @
                                      [LogPrintf ''[INFO] serf discovery started, current member addr:%s, advertise addr:%s\<newline>''
                                         [S (Addr m), S (Advertise m)]]\<rparr>
                          in if length (Routers m) > 0
                             then (case Join env s2 (strings_Split (Routers m) (CHR '','')) of
                                     Inl p \<Rightarrow> Inl p
                                   | Inr (err, s3) \<Rightarrow> Inr (None, s3))
                             else Inr (None, s2))))))"

section \<open>The event loop\<close>

text \<open>
  The first three statements of each loop body: the endpoint is \<^verbatim>\<open>Addr:Port\<close>, the
  Member is made of the peer's name and that endpoint (twice), the tags are set.
\<close>

definition translate :: "serf_Member \<Rightarrow> Member" where
  "translate member =
     (let addr = Addr_peer member @ '':'' @ itoa (unat (Port member));
          latest = NewSimpleMember (Name member) addr addr
      in SetTags latest (Tags_peer member))"

definition Store :: "string \<Rightarrow> Member \<Rightarrow> ('h, 't) Serf \<Rightarrow> ('h, 't) Serf" where
  "Store k v s = s\<lparr>members := (members s)(k \<mapsto> v), trace := trace s @ [MembersStore k v]\<rparr>"

definition Delete :: "string \<Rightarrow> ('h, 't) Serf \<Rightarrow> ('h, 't) Serf" where
  "Delete k s = s\<lparr>members := (members s)(k := None), trace := trace s @ [MembersDelete k]\<rparr>"

definition Printf :: "string \<Rightarrow> logarg list \<Rightarrow> ('h, 't) Serf \<Rightarrow> ('h, 't) Serf" where
  "Printf f as s = s\<lparr>trace := trace s @ [LogPrintf f as]\<rparr>"

text \<open>
  A call of one hook of the installed handler \<open>h\<close>: the hook runs on the handler's state,
  the call is recorded, the handler keeps its new state.
\<close>

definition call_hook ::
  "('h Handler \<Rightarrow> Member \<Rightarrow> 'h \<Rightarrow> error option \<times> 'h) \<Rightarrow> (Member \<Rightarrow> Action) \<Rightarrow>
   'h Handler \<Rightarrow> Member \<Rightarrow> ('h, 't) Serf \<Rightarrow> error option \<times> ('h, 't) Serf" where
  "call_hook hook act h latest s =
     (case hook h latest (hstate h) of
        (err, hs) \<Rightarrow>
          (err, s\<lparr>handler := Some (h\<lparr>hstate := hs\<rparr>), trace := trace s @ [act latest]\<rparr>))"

text \<open>The body of the loop over the members of a join event.\<close>

definition join_member :: "('h, 't) Serf \<Rightarrow> serf_Member \<Rightarrow> ('h, 't) Serf" where
  "join_member s member =
     (let latest = translate member in
      case handler s of
        Some h \<Rightarrow>
          (case call_hook OnMemberJoin CallOnMemberJoin h latest s of
             (None, s1) \<Rightarrow> Store (Id latest) latest s1
           | (Some err, s1) \<Rightarrow>
               Store (Id latest) latest
                 (Printf ''[ERROR] serf handle member join err:%s\<newline>'' [E err] s1))
      | None \<Rightarrow> Store (Id latest) latest s)"

text \<open>The body of the loop over the members of an update event.\<close>

definition update_member :: "('h, 't) Serf \<Rightarrow> serf_Member \<Rightarrow> ('h, 't) Serf" where
  "update_member s member =
     (let latest = translate member in
      case handler s of
        Some h \<Rightarrow>
          (case call_hook OnMemberUpdate CallOnMemberUpdate h latest s of
             (None, s1) \<Rightarrow> Store (Id latest) latest s1
           | (Some err, s1) \<Rightarrow>
               Store (Id latest) latest
                 (Printf ''[ERROR] serf handle member update err:%s\<newline>'' [E err] s1))
      | None \<Rightarrow> Store (Id latest) latest s)"

text \<open>The body of the loop over the members of a leave or failed event.\<close>

definition leave_member :: "('h, 't) Serf \<Rightarrow> serf_Member \<Rightarrow> ('h, 't) Serf" where
  "leave_member s member =
     (let latest = translate member;
          s1 = Delete (Id latest) s
      in case handler s1 of
           Some h \<Rightarrow>
             (case call_hook OnMemberLeave CallOnMemberLeave h latest s1 of
                (None, s2) \<Rightarrow> s2
              | (Some err, s2) \<Rightarrow>
                  Printf ''[ERROR] serf handle member leave err:%s\<newline>'' [E err] s2)
         | None \<Rightarrow> s1)"

text \<open>
  One iteration of \<^verbatim>\<open>for e := range s.events\<close>: the switch on the event's type. Only a
  \<^verbatim>\<open>MemberEvent\<close> reports one of the four member types, so the type assertion of the
  code succeeds in each case.
\<close>

definition handle_event :: "('h, 't) Serf \<Rightarrow> Event \<Rightarrow> ('h, 't) Serf" where
  "handle_event s e =
     (case e of
        MemberEvent ty ms \<Rightarrow>
          (case EventType_of e of
             EventMemberJoin \<Rightarrow> foldl join_member s ms
           | EventMemberUpdate \<Rightarrow> foldl update_member s ms
           | EventMemberLeave \<Rightarrow> foldl leave_member s ms
           | EventMemberFailed \<Rightarrow> foldl leave_member s ms
           | _ \<Rightarrow> s)
      | _ \<Rightarrow> s)"

text \<open>
  \<^verbatim>\<open>Loop\<close> on the events that the channel delivers before it is closed, in their order
  of arrival.
\<close>

definition Loop :: "('h, 't) Serf \<Rightarrow> Event list \<Rightarrow> ('h, 't) Serf" where
  "Loop s es = foldl handle_event s es"

section \<open>Example inputs\<close>

text \<open>
  A handler that rejects every Member and counts the calls of its hooks, a peer of the
  cluster, a local node, and an environment that gives the library's answers on the
  strings of the examples: its transport is created, and reaches no seed.
\<close>

definition rejecting_handler :: "nat Handler" where
  "rejecting_handler =
     \<lparr>hstate = 0,
      OnMemberJoin = (\<lambda>m n. (Some (OtherErr ''rejected''), Suc n)),
      OnMemberUpdate = (\<lambda>m n. (Some (OtherErr ''rejected''), Suc n)),
      OnMemberLeave = (\<lambda>m n. (Some (OtherErr ''rejected''), Suc n))\<rparr>"

definition peer1 :: "(string \<rightharpoonup> string) \<Rightarrow> serf_Member" where
  "peer1 tags = \<lparr>Name = ''p1'', Addr_peer = ''10.0.0.2'', Port = 7946, Tags_peer = tags\<rparr>"

definition local_node :: "string \<Rightarrow> string \<Rightarrow> Member" where
  "local_node addr advertise =
     \<lparr>Id = ''p0'', Addr = addr, Advertise = advertise,
      Routers = ''10.0.0.2:7946,10.0.0.3:7946'', Tags = Map.empty\<rparr>"

definition example_env :: "nat Env" where
  "example_env =
     \<lparr>net_SplitHostPort =
        (\<lambda>a. if a = ''10.0.0.1:7946'' then Inr (''10.0.0.1'', ''7946'')
             else if a = ''10.0.0.1:http'' then Inr (''10.0.0.1'', ''http'')
             else Inl (OtherErr ''missing port in address'')),
      strconv_Atoi =
        (\<lambda>p. if p = ''7946'' then Inr 7946 else Inl (OtherErr ''invalid syntax'')),
      serf_Create = (\<lambda>cfg. Inr 0),
      serf_Join = (\<lambda>t ms ignoreOld. ((0, Some (OtherErr ''no seed reachable'')), Suc t)),
      serf_Shutdown = (\<lambda>t. (None, t))\<rparr>"

section \<open>The loop bodies, one member at a time\<close>

lemma itoa_small: "n < 10 \<Longrightarrow> itoa n = [''0123456789'' ! n]"
  by (subst itoa.simps) simp

lemma itoa_large: "10 \<le> n \<Longrightarrow> itoa n = itoa (n div 10) @ [''0123456789'' ! (n mod 10)]"
  by (subst itoa.simps) simp

lemma Id_translate: "Id (translate member) = Name member"
  by (simp add: translate_def NewSimpleMember_def SetTags_def Let_def)

lemmas body_defs = call_hook_def Store_def Delete_def Printf_def Let_def

lemma join_member_handler:
  assumes "handler s = Some h" and "OnMemberJoin h (translate member) (hstate h) = (r, hs)"
  shows "join_member s member =
           s\<lparr>handler := Some (h\<lparr>hstate := hs\<rparr>),
             members := (members s)(Name member \<mapsto> translate member),
             trace := trace s @ [CallOnMemberJoin (translate member)] @
               (case r of None \<Rightarrow> []
                | Some err \<Rightarrow> [LogPrintf ''[ERROR] serf handle member join err:%s\<newline>'' [E err]]) @
               [MembersStore (Name member) (translate member)]\<rparr>"
  using assms by (cases r) (simp_all add: join_member_def body_defs Id_translate)

lemma join_member_no_handler:
  assumes "handler s = None"
  shows "join_member s member =
           s\<lparr>members := (members s)(Name member \<mapsto> translate member),
             trace := trace s @ [MembersStore (Name member) (translate member)]\<rparr>"
  using assms by (simp add: join_member_def body_defs Id_translate)

lemma update_member_handler:
  assumes "handler s = Some h" and "OnMemberUpdate h (translate member) (hstate h) = (r, hs)"
  shows "update_member s member =
           s\<lparr>handler := Some (h\<lparr>hstate := hs\<rparr>),
             members := (members s)(Name member \<mapsto> translate member),
             trace := trace s @ [CallOnMemberUpdate (translate member)] @
               (case r of None \<Rightarrow> []
                | Some err \<Rightarrow> [LogPrintf ''[ERROR] serf handle member update err:%s\<newline>'' [E err]]) @
               [MembersStore (Name member) (translate member)]\<rparr>"
  using assms by (cases r) (simp_all add: update_member_def body_defs Id_translate)

lemma update_member_no_handler:
  assumes "handler s = None"
  shows "update_member s member =
           s\<lparr>members := (members s)(Name member \<mapsto> translate member),
             trace := trace s @ [MembersStore (Name member) (translate member)]\<rparr>"
  using assms by (simp add: update_member_def body_defs Id_translate)

lemma leave_member_handler:
  assumes "handler s = Some h" and "OnMemberLeave h (translate member) (hstate h) = (r, hs)"
  shows "leave_member s member =
           s\<lparr>handler := Some (h\<lparr>hstate := hs\<rparr>),
             members := (members s)(Name member := None),
             trace := trace s @ [MembersDelete (Name member), CallOnMemberLeave (translate member)] @
               (case r of None \<Rightarrow> []
                | Some err \<Rightarrow> [LogPrintf ''[ERROR] serf handle member leave err:%s\<newline>'' [E err]])\<rparr>"
  using assms by (cases r) (simp_all add: leave_member_def body_defs Id_translate)

lemma leave_member_no_handler:
  assumes "handler s = None"
  shows "leave_member s member =
           s\<lparr>members := (members s)(Name member := None),
             trace := trace s @ [MembersDelete (Name member)]\<rparr>"
  using assms by (simp add: leave_member_def body_defs Id_translate)

lemma members_join_member:
  "members (join_member s member) = (members s)(Name member \<mapsto> translate member)"
proof (cases "handler s")
  case None
  then show ?thesis by (simp add: join_member_no_handler)
next
  case (Some h)
  obtain r hs where "OnMemberJoin h (translate member) (hstate h) = (r, hs)"
    by (cases "OnMemberJoin h (translate member) (hstate h)")
  with Some show ?thesis by (simp add: join_member_handler)
qed

lemma members_update_member:
  "members (update_member s member) = (members s)(Name member \<mapsto> translate member)"
proof (cases "handler s")
  case None
  then show ?thesis by (simp add: update_member_no_handler)
next
  case (Some h)
  obtain r hs where "OnMemberUpdate h (translate member) (hstate h) = (r, hs)"
    by (cases "OnMemberUpdate h (translate member) (hstate h)")
  with Some show ?thesis by (simp add: update_member_handler)
qed

lemma members_leave_member:
  "members (leave_member s member) = (members s)(Name member := None)"
proof (cases "handler s")
  case None
  then show ?thesis by (simp add: leave_member_no_handler)
next
  case (Some h)
  obtain r hs where "OnMemberLeave h (translate member) (hstate h) = (r, hs)"
    by (cases "OnMemberLeave h (translate member) (hstate h)")
  with Some show ?thesis by (simp add: leave_member_handler)
qed

section \<open>Batches of members\<close>

lemma foldl_members:
  assumes "\<And>s m. members (f s m) = u (members s) m"
  shows "members (foldl f s ms) = foldl u (members s) ms"
  by (induction ms arbitrary: s) (simp_all add: assms)

lemma foldl_trace:
  assumes step: "\<And>s m h. handler s = Some h \<Longrightarrow>
      \<exists>seg h'. trace (f s m) = trace s @ seg \<and> filter (\<lambda>a. \<not> is_log a) seg = g m \<and>
        handler (f s m) = Some h'"
    and "handler s = Some h"
  shows "\<exists>new. trace (foldl f s ms) = trace s @ new \<and>
           filter (\<lambda>a. \<not> is_log a) new = concat (map g ms)"
  using assms(2)
proof (induction ms arbitrary: s h)
  case Nil
  then show ?case by simp
next
  case (Cons m ms)
  from step [OF Cons.prems, of m] obtain seg h'
    where seg: "trace (f s m) = trace s @ seg" "filter (\<lambda>a. \<not> is_log a) seg = g m"
      and h': "handler (f s m) = Some h'"
    by blast
  from Cons.IH [OF h'] obtain new
    where new: "trace (foldl f (f s m) ms) = trace (f s m) @ new"
      "filter (\<lambda>a. \<not> is_log a) new = concat (map g ms)"
    by blast
  have "trace (foldl f s (m # ms)) = trace s @ (seg @ new)"
    using seg new by simp
  moreover have "filter (\<lambda>a. \<not> is_log a) (seg @ new) = concat (map g (m # ms))"
    using seg new by simp
  ultimately show ?case by blast
qed

lemma foldl_upsert_last:
  assumes "k \<notin> key ` set post"
  shows "foldl (\<lambda>r m. r(key m \<mapsto> val m)) r post k = r k"
  using assms by (induction post arbitrary: r) simp_all

lemma foldl_remove:
  "foldl (\<lambda>r m. r(key m := None)) r ms k = (if k \<in> key ` set ms then None else r k)"
  by (induction ms arbitrary: r) auto

section \<open>Events through the loop\<close>

lemma Loop_join: "Loop s [MemberEvent EventMemberJoin ms] = foldl join_member s ms"
  by (simp add: Loop_def handle_event_def)

lemma Loop_update: "Loop s [MemberEvent EventMemberUpdate ms] = foldl update_member s ms"
  by (simp add: Loop_def handle_event_def)

lemma Loop_leave: "Loop s [MemberEvent EventMemberLeave ms] = foldl leave_member s ms"
  by (simp add: Loop_def handle_event_def)

lemma Loop_failed: "Loop s [MemberEvent EventMemberFailed ms] = foldl leave_member s ms"
  by (simp add: Loop_def handle_event_def)

lemma translate_fields:
  "translate member =
     \<lparr>Id = Name member,
      Addr = Addr_peer member @ '':'' @ itoa (unat (Port member)),
      Advertise = Addr_peer member @ '':'' @ itoa (unat (Port member)),
      Routers = [], Tags = Tags_peer member\<rparr>"
  by (simp add: translate_def NewSimpleMember_def SetTags_def Let_def)

lemma join_batch_trace:
  assumes "handler s = Some h"
  shows "\<exists>new. trace (foldl join_member s ms) = trace s @ new \<and>
           filter (\<lambda>a. \<not> is_log a) new =
             concat (map (\<lambda>m. [CallOnMemberJoin (translate m), MembersStore (Name m) (translate m)]) ms)"
proof (rule foldl_trace [OF _ assms])
  fix s :: "('a, 'b) Serf" and m h
  assume h: "handler s = Some h"
  obtain r hs where r: "OnMemberJoin h (translate m) (hstate h) = (r, hs)"
    by (cases "OnMemberJoin h (translate m) (hstate h)")
  show "\<exists>seg h'. trace (join_member s m) = trace s @ seg \<and>
          filter (\<lambda>a. \<not> is_log a) seg =
            [CallOnMemberJoin (translate m), MembersStore (Name m) (translate m)] \<and>
          handler (join_member s m) = Some h'"
    by (cases r) (simp_all add: join_member_handler [OF h r])
qed

lemma update_batch_trace:
  assumes "handler s = Some h"
  shows "\<exists>new. trace (foldl update_member s ms) = trace s @ new \<and>
           filter (\<lambda>a. \<not> is_log a) new =
             concat (map (\<lambda>m. [CallOnMemberUpdate (translate m), MembersStore (Name m) (translate m)]) ms)"
proof (rule foldl_trace [OF _ assms])
  fix s :: "('a, 'b) Serf" and m h
  assume h: "handler s = Some h"
  obtain r hs where r: "OnMemberUpdate h (translate m) (hstate h) = (r, hs)"
    by (cases "OnMemberUpdate h (translate m) (hstate h)")
  show "\<exists>seg h'. trace (update_member s m) = trace s @ seg \<and>
          filter (\<lambda>a. \<not> is_log a) seg =
            [CallOnMemberUpdate (translate m), MembersStore (Name m) (translate m)] \<and>
          handler (update_member s m) = Some h'"
    by (cases r) (simp_all add: update_member_handler [OF h r])
qed

lemma leave_batch_trace:
  assumes "handler s = Some h"
  shows "\<exists>new. trace (foldl leave_member s ms) = trace s @ new \<and>
           filter (\<lambda>a. \<not> is_log a) new =
             concat (map (\<lambda>m. [MembersDelete (Name m), CallOnMemberLeave (translate m)]) ms)"
proof (rule foldl_trace [OF _ assms])
  fix s :: "('a, 'b) Serf" and m h
  assume h: "handler s = Some h"
  obtain r hs where r: "OnMemberLeave h (translate m) (hstate h) = (r, hs)"
    by (cases "OnMemberLeave h (translate m) (hstate h)")
  show "\<exists>seg h'. trace (leave_member s m) = trace s @ seg \<and>
          filter (\<lambda>a. \<not> is_log a) seg =
            [MembersDelete (Name m), CallOnMemberLeave (translate m)] \<and>
          handler (leave_member s m) = Some h'"
    by (cases r) (simp_all add: leave_member_handler [OF h r])
qed

lemma members_join_batch:
  "members (foldl join_member s ms) =
     foldl (\<lambda>r m. r(Name m \<mapsto> translate m)) (members s) ms"
  by (rule foldl_members) (rule members_join_member)

lemma members_update_batch:
  "members (foldl update_member s ms) =
     foldl (\<lambda>r m. r(Name m \<mapsto> translate m)) (members s) ms"
  by (rule foldl_members) (rule members_update_member)

lemma members_leave_batch:
  "members (foldl leave_member s ms) =
     foldl (\<lambda>r m. r(Name m := None)) (members s) ms"
  by (rule foldl_members) (rule members_leave_member)

section \<open>Join and update events: a hook error does not block registration\<close>

text \<open>
  C1: a join or update event is processed while a Handler is installed. When the hook
  returns an error for the event's member, the loop calls that hook once, logs the
  error, and then stores the translated Member under its id: the registry holds it with
  the translated payload (the peer's name as id, \<^verbatim>\<open>Addr:Port\<close> as both endpoints, the
  peer's tags). For a batch of members, whatever the hooks return: each member is in the
  registry afterwards unless a later member of the batch has its name, and the steps
  other than log lines are, member by member, one call of the hook and then the store.
\<close>

theorem C1_hook_error_fail_open:
  assumes inst: "handler s = Some h"
    and kind:
      "(ty, hook, call, fmt) =
         (EventMemberJoin, OnMemberJoin, CallOnMemberJoin,
          ''[ERROR] serf handle member join err:%s\<newline>'') \<or>
       (ty, hook, call, fmt) =
         (EventMemberUpdate, OnMemberUpdate, CallOnMemberUpdate,
          ''[ERROR] serf handle member update err:%s\<newline>'')"
  shows
    "(hook h (translate member) (hstate h) = (Some err, hs) \<longrightarrow>
        Loop s [MemberEvent ty [member]] =
          s\<lparr>handler := Some (h\<lparr>hstate := hs\<rparr>),
            members := (members s)(Name member \<mapsto> translate member),
            trace := trace s @
              [call (translate member), LogPrintf fmt [E err],
               MembersStore (Name member) (translate member)]\<rparr>) \<and>
     translate member =
       \<lparr>Id = Name member,
        Addr = Addr_peer member @ '':'' @ itoa (unat (Port member)),
        Advertise = Addr_peer member @ '':'' @ itoa (unat (Port member)),
        Routers = [], Tags = Tags_peer member\<rparr> \<and>
     (\<forall>pre post. ms = pre @ member # post \<and> Name member \<notin> Name ` set post \<longrightarrow>
        members (Loop s [MemberEvent ty ms]) (Name member) = Some (translate member)) \<and>
     (\<exists>new. trace (Loop s [MemberEvent ty ms]) = trace s @ new \<and>
        filter (\<lambda>a. \<not> is_log a) new =
          concat (map (\<lambda>m. [call (translate m), MembersStore (Name m) (translate m)]) ms))"
proof -
  from kind show ?thesis
  proof
    assume "(ty, hook, call, fmt) =
         (EventMemberJoin, OnMemberJoin, CallOnMemberJoin,
          ''[ERROR] serf handle member join err:%s\<newline>'')"
    then have k: "ty = EventMemberJoin" "hook = OnMemberJoin" "call = CallOnMemberJoin"
      "fmt = ''[ERROR] serf handle member join err:%s\<newline>''"
      by simp_all
    have one: "OnMemberJoin h (translate member) (hstate h) = (Some err, hs) \<longrightarrow>
        Loop s [MemberEvent EventMemberJoin [member]] =
          s\<lparr>handler := Some (h\<lparr>hstate := hs\<rparr>),
            members := (members s)(Name member \<mapsto> translate member),
            trace := trace s @
              [CallOnMemberJoin (translate member),
               LogPrintf ''[ERROR] serf handle member join err:%s\<newline>'' [E err],
               MembersStore (Name member) (translate member)]\<rparr>"
      by (simp add: Loop_join join_member_handler [OF inst])
    have present: "\<forall>pre post. ms = pre @ member # post \<and> Name member \<notin> Name ` set post \<longrightarrow>
        members (Loop s [MemberEvent EventMemberJoin ms]) (Name member) = Some (translate member)"
      unfolding Loop_join members_join_batch by (auto simp add: foldl_upsert_last)
    show ?thesis
      unfolding k using one present join_batch_trace [OF inst, of ms]
      by (simp only: Loop_join translate_fields [symmetric] simp_thms)
  next
    assume "(ty, hook, call, fmt) =
         (EventMemberUpdate, OnMemberUpdate, CallOnMemberUpdate,
          ''[ERROR] serf handle member update err:%s\<newline>'')"
    then have k: "ty = EventMemberUpdate" "hook = OnMemberUpdate" "call = CallOnMemberUpdate"
      "fmt = ''[ERROR] serf handle member update err:%s\<newline>''"
      by simp_all
    have one: "OnMemberUpdate h (translate member) (hstate h) = (Some err, hs) \<longrightarrow>
        Loop s [MemberEvent EventMemberUpdate [member]] =
          s\<lparr>handler := Some (h\<lparr>hstate := hs\<rparr>),
            members := (members s)(Name member \<mapsto> translate member),
            trace := trace s @
              [CallOnMemberUpdate (translate member),
               LogPrintf ''[ERROR] serf handle member update err:%s\<newline>'' [E err],
               MembersStore (Name member) (translate member)]\<rparr>"
      by (simp add: Loop_update update_member_handler [OF inst])
    have present: "\<forall>pre post. ms = pre @ member # post \<and> Name member \<notin> Name ` set post \<longrightarrow>
        members (Loop s [MemberEvent EventMemberUpdate ms]) (Name member) = Some (translate member)"
      unfolding Loop_update members_update_batch by (auto simp add: foldl_upsert_last)
    show ?thesis
      unfolding k using one present update_batch_trace [OF inst, of ms]
      by (simp only: Loop_update translate_fields [symmetric] simp_thms)
  qed
qed


theorem C1_hook_error_fail_open_witness:
  "Loop (SetHandler (NewSerf None) (Some rejecting_handler) :: (nat, nat) Serf)
     [MemberEvent EventMemberJoin [peer1 [''group'' \<mapsto> ''a'']]] =
   \<lparr>events = None, member_loc = None, serf = None,
    handler = Some (rejecting_handler\<lparr>hstate := 1\<rparr>),
    members =
      [''p1'' \<mapsto> \<lparr>Id = ''p1'', Addr = ''10.0.0.2:7946'', Advertise = ''10.0.0.2:7946'',
                  Routers = [], Tags = [''group'' \<mapsto> ''a'']\<rparr>],
    loops = 0,
    trace =
      [CallOnMemberJoin
         \<lparr>Id = ''p1'', Addr = ''10.0.0.2:7946'', Advertise = ''10.0.0.2:7946'',
          Routers = [], Tags = [''group'' \<mapsto> ''a'']\<rparr>,
       LogPrintf ''[ERROR] serf handle member join err:%s\<newline>'' [E (OtherErr ''rejected'')],
       MembersStore ''p1''
         \<lparr>Id = ''p1'', Addr = ''10.0.0.2:7946'', Advertise = ''10.0.0.2:7946'',
          Routers = [], Tags = [''group'' \<mapsto> ''a'']\<rparr>]\<rparr>"
proof -
  let ?s = "SetHandler (NewSerf None) (Some rejecting_handler) :: (nat, nat) Serf"
  let ?p = "peer1 [''group'' \<mapsto> ''a'']"
  have inst: "handler ?s = Some rejecting_handler"
    by (simp add: SetHandler_def)
  have hook: "OnMemberJoin rejecting_handler (translate ?p) (hstate rejecting_handler) =
      (Some (OtherErr ''rejected''), 1)"
    by (simp add: rejecting_handler_def)
  have tr: "translate ?p =
      \<lparr>Id = ''p1'', Addr = ''10.0.0.2:7946'', Advertise = ''10.0.0.2:7946'',
       Routers = [], Tags = [''group'' \<mapsto> ''a'']\<rparr>"
    by (simp add: translate_fields peer1_def itoa_small itoa_large)
  from C1_hook_error_fail_open [OF inst disjI1 [OF refl], of ?p "OtherErr ''rejected''" 1 "[?p]"] hook
  have "Loop ?s [MemberEvent EventMemberJoin [?p]] =
      ?s\<lparr>handler := Some (rejecting_handler\<lparr>hstate := 1\<rparr>),
         members := (members ?s)(Name ?p \<mapsto> translate ?p),
         trace := trace ?s @
           [CallOnMemberJoin (translate ?p),
            LogPrintf ''[ERROR] serf handle member join err:%s\<newline>'' [E (OtherErr ''rejected'')],
            MembersStore (Name ?p) (translate ?p)]\<rparr>"
    by blast
  then show ?thesis
    unfolding tr by (simp add: SetHandler_def NewSerf_def peer1_def)
qed

section \<open>Leave and failed events\<close>

text \<open>
  C2: a leave or failed event is processed. For its member the loop first deletes the
  member's id from the registry and only then, if a Handler is installed, calls
  OnMemberLeave; the hook's result \<open>r\<close> adds a log line when it is an error and changes
  nothing else. With no Handler the deletion is the only step. After the event a lookup
  of the id of every member of the batch finds nothing, with or without a Handler and
  whatever the hook returns; with a Handler the steps other than log lines are, member by
  member, the deletion and then the call of the hook.
\<close>

theorem C2_leave_removes_before_hook:
  assumes kind: "ty = EventMemberLeave \<or> ty = EventMemberFailed"
  shows
    "(handler s = Some h \<and> OnMemberLeave h (translate member) (hstate h) = (r, hs) \<longrightarrow>
        Loop s [MemberEvent ty [member]] =
          s\<lparr>handler := Some (h\<lparr>hstate := hs\<rparr>),
            members := (members s)(Name member := None),
            trace := trace s @
              [MembersDelete (Name member), CallOnMemberLeave (translate member)] @
              (case r of None \<Rightarrow> []
               | Some err \<Rightarrow>
                   [LogPrintf ''[ERROR] serf handle member leave err:%s\<newline>'' [E err]])\<rparr>) \<and>
     (handler s = None \<longrightarrow>
        Loop s [MemberEvent ty [member]] =
          s\<lparr>members := (members s)(Name member := None),
            trace := trace s @ [MembersDelete (Name member)]\<rparr>) \<and>
     (\<forall>m \<in> set ms. members (Loop s [MemberEvent ty ms]) (Name m) = None) \<and>
     (handler s = Some h \<longrightarrow>
        (\<exists>new. trace (Loop s [MemberEvent ty ms]) = trace s @ new \<and>
           filter (\<lambda>a. \<not> is_log a) new =
             concat (map (\<lambda>m. [MembersDelete (Name m), CallOnMemberLeave (translate m)]) ms)))"
proof -
  have L: "Loop s [MemberEvent ty xs] = foldl leave_member s xs" for xs
    using kind by (auto simp add: Loop_leave Loop_failed)
  have one: "handler s = Some h \<and> OnMemberLeave h (translate member) (hstate h) = (r, hs) \<longrightarrow>
        foldl leave_member s [member] =
          s\<lparr>handler := Some (h\<lparr>hstate := hs\<rparr>),
            members := (members s)(Name member := None),
            trace := trace s @
              [MembersDelete (Name member), CallOnMemberLeave (translate member)] @
              (case r of None \<Rightarrow> []
               | Some err \<Rightarrow>
                   [LogPrintf ''[ERROR] serf handle member leave err:%s\<newline>'' [E err]])\<rparr>"
    by (simp add: leave_member_handler)
  have none: "handler s = None \<longrightarrow>
        foldl leave_member s [member] =
          s\<lparr>members := (members s)(Name member := None),
            trace := trace s @ [MembersDelete (Name member)]\<rparr>"
    by (simp add: leave_member_no_handler)
  have gone: "\<forall>m \<in> set ms. members (foldl leave_member s ms) (Name m) = None"
    by (simp add: members_leave_batch foldl_remove)
  have order: "handler s = Some h \<longrightarrow>
        (\<exists>new. trace (foldl leave_member s ms) = trace s @ new \<and>
           filter (\<lambda>a. \<not> is_log a) new =
             concat (map (\<lambda>m. [MembersDelete (Name m), CallOnMemberLeave (translate m)]) ms))"
    using leave_batch_trace [of s h ms] by blast
  show ?thesis
    unfolding L using one none gone order by blast
qed

theorem C2_leave_removes_before_hook_witness:
  "trace (Loop
     ((SetHandler (NewSerf None) (Some rejecting_handler) :: (nat, nat) Serf)
        \<lparr>members := [''p1'' \<mapsto> translate (peer1 Map.empty)]\<rparr>)
     [MemberEvent EventMemberFailed [peer1 Map.empty]]) =
     [MembersDelete ''p1'',
      CallOnMemberLeave
        \<lparr>Id = ''p1'', Addr = ''10.0.0.2:7946'', Advertise = ''10.0.0.2:7946'',
         Routers = [], Tags = Map.empty\<rparr>,
      LogPrintf ''[ERROR] serf handle member leave err:%s\<newline>'' [E (OtherErr ''rejected'')]] \<and>
   members (Loop
     ((SetHandler (NewSerf None) (Some rejecting_handler) :: (nat, nat) Serf)
        \<lparr>members := [''p1'' \<mapsto> translate (peer1 Map.empty)]\<rparr>)
     [MemberEvent EventMemberFailed [peer1 Map.empty]]) ''p1'' = None"
proof -
  let ?s = "(SetHandler (NewSerf None) (Some rejecting_handler) :: (nat, nat) Serf)
        \<lparr>members := [''p1'' \<mapsto> translate (peer1 Map.empty)]\<rparr>"
  let ?p = "peer1 Map.empty"
  have inst: "handler ?s = Some rejecting_handler"
    by (simp add: SetHandler_def)
  have hook: "OnMemberLeave rejecting_handler (translate ?p) (hstate rejecting_handler) =
      (Some (OtherErr ''rejected''), 1)"
    by (simp add: rejecting_handler_def)
  have tr: "translate ?p =
      \<lparr>Id = ''p1'', Addr = ''10.0.0.2:7946'', Advertise = ''10.0.0.2:7946'',
       Routers = [], Tags = Map.empty\<rparr>"
    by (simp add: translate_fields peer1_def itoa_small itoa_large)
  have name: "Name ?p = ''p1''"
    by (simp add: peer1_def)
  from C2_leave_removes_before_hook [OF disjI2 [OF refl],
      of ?s rejecting_handler ?p "Some (OtherErr ''rejected'')" 1 "[?p]"] inst hook
  have "Loop ?s [MemberEvent EventMemberFailed [?p]] =
      ?s\<lparr>handler := Some (rejecting_handler\<lparr>hstate := 1\<rparr>),
         members := (members ?s)(Name ?p := None),
         trace := trace ?s @
           [MembersDelete (Name ?p), CallOnMemberLeave (translate ?p)] @
           [LogPrintf ''[ERROR] serf handle member leave err:%s\<newline>''
              [E (OtherErr ''rejected'')]]\<rparr>"
    by simp
  then show ?thesis
    unfolding tr name by (simp add: SetHandler_def NewSerf_def)
qed

section \<open>Sequences of events\<close>

text \<open>
  C5: after a join event for the id \<open>p1\<close> and then an update event for \<open>p1\<close>, a lookup of
  \<open>p1\<close> gives the Member translated from the update event alone: its tags are the tags
  of the update, and nothing of the join event's descriptor remains.
\<close>

theorem C5_update_replaces_entry:
  "members
     (Loop s
        [MemberEvent EventMemberJoin
           [\<lparr>Name = p1, Addr_peer = a1, Port = q1, Tags_peer = tags1\<rparr>],
         MemberEvent EventMemberUpdate
           [\<lparr>Name = p1, Addr_peer = a2, Port = q2, Tags_peer = tags2\<rparr>]]) p1 =
   Some \<lparr>Id = p1, Addr = a2 @ '':'' @ itoa (unat q2), Advertise = a2 @ '':'' @ itoa (unat q2),
         Routers = [], Tags = tags2\<rparr>"
  by (simp add: Loop_def handle_event_def members_update_member translate_fields)

theorem C5_update_replaces_entry_witness:
  "map_option Tags
     (members
        (Loop (SetHandler (NewSerf None) (Some rejecting_handler) :: (nat, nat) Serf)
           [MemberEvent EventMemberJoin
              [\<lparr>Name = ''p1'', Addr_peer = ''10.0.0.2'', Port = 7946,
                Tags_peer = [''group'' \<mapsto> ''a'', ''service'' \<mapsto> ''web'']\<rparr>],
            MemberEvent EventMemberUpdate
              [\<lparr>Name = ''p1'', Addr_peer = ''10.0.0.2'', Port = 7946,
                Tags_peer = [''group'' \<mapsto> ''b'']\<rparr>]]) ''p1'') =
   Some [''group'' \<mapsto> ''b'']"
  by (simp add: C5_update_replaces_entry)

text \<open>
  C6: from any state, processing a join, then a leave (or failed), then a join event for
  one id leaves the registry as processing the last join event alone does.
\<close>

theorem C6_join_leave_join:
  assumes "lt = EventMemberLeave \<or> lt = EventMemberFailed"
    and "Name j1 = Name j2" and "Name l = Name j2"
  shows "members (Loop s [MemberEvent EventMemberJoin [j1], MemberEvent lt [l],
                          MemberEvent EventMemberJoin [j2]]) =
         members (Loop s [MemberEvent EventMemberJoin [j2]])"
  using assms
  by (auto simp add: Loop_def handle_event_def members_join_member members_leave_member)

theorem C6_join_leave_join_witness:
  "members (Loop (NewSerf None :: (nat, nat) Serf)
      [MemberEvent EventMemberJoin [peer1 [''group'' \<mapsto> ''a'']],
       MemberEvent EventMemberLeave [peer1 [''group'' \<mapsto> ''a'']],
       MemberEvent EventMemberJoin [peer1 [''group'' \<mapsto> ''b'']]]) =
   members (Loop (NewSerf None :: (nat, nat) Serf)
      [MemberEvent EventMemberJoin [peer1 [''group'' \<mapsto> ''b'']]])"
  by (rule C6_join_leave_join) (simp_all add: peer1_def)

text \<open>
  C10: an event whose type is none of member-join, member-update, member-leave and
  member-failed leaves the whole state as it is: the registry is unchanged, the trace has
  no new step (no hook is called) and the handler keeps its state. In a stream of events
  it can be dropped.
\<close>

theorem C10_other_events_ignored:
  assumes "EventType_of e \<notin>
             {EventMemberJoin, EventMemberUpdate, EventMemberLeave, EventMemberFailed}"
  shows "Loop s [e] = s \<and> Loop s (es @ e # fs) = Loop s (es @ fs)"
proof -
  have "handle_event s' e = s'" for s' :: "('a, 'b) Serf"
    using assms by (cases e; cases "EventType_of e") (simp_all add: handle_event_def)
  then show ?thesis
    by (simp add: Loop_def)
qed

theorem C10_other_events_ignored_witness:
  "Loop (SetHandler (NewSerf None) (Some rejecting_handler) :: (nat, nat) Serf)
     [MemberEvent EventMemberReap [peer1 Map.empty]] =
   SetHandler (NewSerf None) (Some rejecting_handler) \<and>
   Loop (SetHandler (NewSerf None) (Some rejecting_handler) :: (nat, nat) Serf)
     [UserEvent ''deploy''] =
   SetHandler (NewSerf None) (Some rejecting_handler)"
proof -
  have a: "EventType_of (MemberEvent EventMemberReap [peer1 Map.empty]) \<notin>
      {EventMemberJoin, EventMemberUpdate, EventMemberLeave, EventMemberFailed}"
    by simp
  have b: "EventType_of (UserEvent ''deploy'') \<notin>
      {EventMemberJoin, EventMemberUpdate, EventMemberLeave, EventMemberFailed}"
    by simp
  show ?thesis
    using C10_other_events_ignored [OF a] C10_other_events_ignored [OF b] by blast
qed

section \<open>The registry\<close>

lemma filed_upsert:
  assumes "\<forall>k x. r k = Some x \<longrightarrow> Id x = k" and "Id v = i"
  shows "\<forall>k x. (r(i \<mapsto> v)) k = Some x \<longrightarrow> Id x = k"
proof (intro allI impI)
  fix k x
  assume h: "(r(i \<mapsto> v)) k = Some x"
  show "Id x = k"
  proof (cases "k = i")
    case True
    with h have "x = v" by simp
    with True assms(2) show ?thesis by simp
  next
    case False
    with h have "r k = Some x" by simp
    with assms(1) show ?thesis by blast
  qed
qed

lemma filed_remove:
  assumes "\<forall>k x. r k = Some x \<longrightarrow> Id x = k"
  shows "\<forall>k x. (r(i := None)) k = Some x \<longrightarrow> Id x = k"
proof (intro allI impI)
  fix k x
  assume h: "(r(i := None)) k = Some x"
  then have "r k = Some x" by (cases "k = i") simp_all
  with assms show "Id x = k" by blast
qed

lemma filed_foldl_upsert:
  assumes "\<forall>k x. r k = Some x \<longrightarrow> Id x = k"
  shows "\<forall>k x. foldl (\<lambda>r m. r(Name m \<mapsto> translate m)) r ms k = Some x \<longrightarrow> Id x = k"
  using assms
proof (induction ms arbitrary: r)
  case Nil
  then show ?case unfolding foldl_Nil .
next
  case (Cons m ms)
  show ?case
    unfolding foldl_Cons
    by (rule Cons.IH) (rule filed_upsert [OF Cons.prems Id_translate])
qed

lemma filed_foldl_remove:
  assumes "\<forall>k x. r k = Some x \<longrightarrow> Id x = k"
  shows "\<forall>k x. foldl (\<lambda>r m. r(Name m := None)) r ms k = Some x \<longrightarrow> Id x = k"
  using assms
proof (induction ms arbitrary: r)
  case Nil
  then show ?case unfolding foldl_Nil .
next
  case (Cons m ms)
  show ?case
    unfolding foldl_Cons
    by (rule Cons.IH) (rule filed_remove [OF Cons.prems])
qed

lemma filed_handle_event:
  assumes "\<forall>k x. members s k = Some x \<longrightarrow> Id x = k"
  shows "\<forall>k x. members (handle_event s e) k = Some x \<longrightarrow> Id x = k"
proof -
  consider
    (upsert) "members (handle_event s e) =
        foldl (\<lambda>r m. r(Name m \<mapsto> translate m)) (members s) (case e of MemberEvent ty ms \<Rightarrow> ms | _ \<Rightarrow> [])"
    | (remove) "members (handle_event s e) =
        foldl (\<lambda>r m. r(Name m := None)) (members s) (case e of MemberEvent ty ms \<Rightarrow> ms | _ \<Rightarrow> [])"
    | (same) "handle_event s e = s"
  proof (cases e)
    case (MemberEvent ty ms)
    then show ?thesis
      by (cases ty)
        (simp_all add: handle_event_def members_join_batch members_update_batch
          members_leave_batch that)
  qed (simp_all add: handle_event_def that)
  then show ?thesis
  proof cases
    case upsert
    show ?thesis unfolding upsert by (rule filed_foldl_upsert [OF assms])
  next
    case remove
    show ?thesis unfolding remove by (rule filed_foldl_remove [OF assms])
  next
    case same
    show ?thesis unfolding same by (rule assms)
  qed
qed

lemma filed_Loop:
  assumes "\<forall>k x. members s k = Some x \<longrightarrow> Id x = k"
  shows "\<forall>k x. members (Loop s es) k = Some x \<longrightarrow> Id x = k"
  using assms
proof (induction es arbitrary: s)
  case Nil
  then show ?case unfolding Loop_def foldl_Nil .
next
  case (Cons e es)
  show ?case
    unfolding Loop_def foldl_Cons
    by (rule Cons.IH [unfolded Loop_def]) (rule filed_handle_event [OF Cons.prems])
qed

text \<open>
  C7: the registry is a map from ids to Members, empty at first. Storing a Member under
  its own id inserts or replaces the one entry of that id and leaves the others; deleting
  an id removes its entry and is a no-op when the id is absent. Both return the new state
  and cannot fail. When every entry is filed under the id of its Member, this remains so
  after a store, after a deletion and after the loop has processed any events, and then
  two entries whose Members have the same id are one entry: at most one Member per id.
\<close>

theorem C7_one_member_per_id:
  "members (NewSerf local :: ('h, 't) Serf) = Map.empty \<and>
   members (Store (Id m) m (s :: ('h, 't) Serf)) = (members s)(Id m \<mapsto> m) \<and>
   members (Delete k s) = (members s)(k := None) \<and>
   (members s k = None \<longrightarrow> members (Delete k s) = members s) \<and>
   ((\<forall>i x. members s i = Some x \<longrightarrow> Id x = i) \<longrightarrow>
      (\<forall>i x. members (Store (Id m) m s) i = Some x \<longrightarrow> Id x = i) \<and>
      (\<forall>i x. members (Delete k s) i = Some x \<longrightarrow> Id x = i) \<and>
      (\<forall>i x. members (Loop s es) i = Some x \<longrightarrow> Id x = i) \<and>
      (\<forall>i j x y. members (Loop s es) i = Some x \<and> members (Loop s es) j = Some y \<and>
         Id x = Id y \<longrightarrow> i = j \<and> x = y))"
proof -
  have new: "members (NewSerf local :: ('h, 't) Serf) = Map.empty"
    by (simp add: NewSerf_def)
  have store: "members (Store (Id m) m s) = (members s)(Id m \<mapsto> m)"
    by (simp add: Store_def)
  have del: "members (Delete k s) = (members s)(k := None)"
    by (simp add: Delete_def)
  have noop: "members s k = None \<longrightarrow> members (Delete k s) = members s"
    unfolding del by auto
  have inv: "(\<forall>i x. members (Store (Id m) m s) i = Some x \<longrightarrow> Id x = i) \<and>
      (\<forall>i x. members (Delete k s) i = Some x \<longrightarrow> Id x = i) \<and>
      (\<forall>i x. members (Loop s es) i = Some x \<longrightarrow> Id x = i) \<and>
      (\<forall>i j x y. members (Loop s es) i = Some x \<and> members (Loop s es) j = Some y \<and>
         Id x = Id y \<longrightarrow> i = j \<and> x = y)"
    if filed: "\<forall>i x. members s i = Some x \<longrightarrow> Id x = i"
  proof -
    have a: "\<forall>i x. members (Store (Id m) m s) i = Some x \<longrightarrow> Id x = i"
      unfolding store by (rule filed_upsert [OF filed refl])
    have b: "\<forall>i x. members (Delete k s) i = Some x \<longrightarrow> Id x = i"
      unfolding del by (rule filed_remove [OF filed])
    have c: "\<forall>i x. members (Loop s es) i = Some x \<longrightarrow> Id x = i"
      by (rule filed_Loop [OF filed])
    have d: "\<forall>i j x y. members (Loop s es) i = Some x \<and> members (Loop s es) j = Some y \<and>
         Id x = Id y \<longrightarrow> i = j \<and> x = y"
    proof (intro allI impI)
      fix i j x y
      assume h: "members (Loop s es) i = Some x \<and> members (Loop s es) j = Some y \<and> Id x = Id y"
      with c have "Id x = i" "Id y = j" by blast+
      with h have ij: "i = j" by simp
      with h have "x = y" by (metis option.inject)
      with ij show "i = j \<and> x = y" by simp
    qed
    from a b c d show ?thesis by blast
  qed
  from new store del noop inv show ?thesis by blast
qed

theorem C7_one_member_per_id_witness:
  "map_option Id
     (members (Loop (NewSerf None :: (nat, nat) Serf)
        [MemberEvent EventMemberJoin [peer1 [''group'' \<mapsto> ''a''], peer1 [''group'' \<mapsto> ''b'']]])
        ''p1'') = Some ''p1''"
proof -
  let ?s = "NewSerf None :: (nat, nat) Serf"
  let ?es = "[MemberEvent EventMemberJoin [peer1 [''group'' \<mapsto> ''a''], peer1 [''group'' \<mapsto> ''b'']]]"
  have "\<forall>i x. members ?s i = Some x \<longrightarrow> Id x = i"
    by (simp add: NewSerf_def)
  with C7_one_member_per_id [of None "translate (peer1 Map.empty)" ?s "''p1''" ?es]
  have filed: "\<forall>i x. members (Loop ?s ?es) i = Some x \<longrightarrow> Id x = i"
    by blast
  have there: "members (Loop ?s ?es) ''p1'' = Some (translate (peer1 [''group'' \<mapsto> ''b'']))"
    by (simp add: Loop_join members_join_member peer1_def)
  with filed have "Id (translate (peer1 [''group'' \<mapsto> ''b''])) = ''p1''"
    by blast
  then show ?thesis
    unfolding there by simp
qed

section \<open>Start, Join and Stop\<close>

lemma Start_nil_member:
  assumes "member_loc s = None"
  shows "Start env s = Inl NilDereference"
  using assms by (simp add: Start_def Let_def)

lemma Start_advertise_error:
  assumes "member_loc s = Some m" and "splitHostPort env (Advertise m) = Inl e"
  shows "Start env s = Inr (Some e, s\<lparr>events := Some \<lparr>capacity = 3, closed = False\<rparr>\<rparr>)"
  using assms by (simp add: Start_def Let_def)

lemma Start_addr_error:
  assumes "member_loc s = Some m" and "splitHostPort env (Advertise m) = Inr (ahost, aport)"
    and "splitHostPort env (Addr m) = Inl e"
  shows "Start env s = Inr (Some e, s\<lparr>events := Some \<lparr>capacity = 3, closed = False\<rparr>\<rparr>)"
  using assms by (simp add: Start_def Let_def)

lemma Start_create_error:
  assumes "member_loc s = Some m" and "splitHostPort env (Advertise m) = Inr (ahost, aport)"
    and "splitHostPort env (Addr m) = Inr (bhost, bport)"
    and "serf_Create env
           \<lparr>AdvertiseAddr = ahost, AdvertisePort = aport, BindAddr = bhost, BindPort = bport,
            EventCh = Some \<lparr>capacity = 3, closed = False\<rparr>, NodeName = Id m,
            Tags_cfg = Tags m\<rparr> = Inl e"
  shows "Start env s =
           Inr (Some e, s\<lparr>events := Some \<lparr>capacity = 3, closed = False\<rparr>, serf := None\<rparr>)"
  using assms by (simp add: Start_def Let_def GetTags_def)

lemma Start_created:
  assumes "member_loc s = Some m" and "splitHostPort env (Advertise m) = Inr (ahost, aport)"
    and "splitHostPort env (Addr m) = Inr (bhost, bport)"
    and "serf_Create env
           \<lparr>AdvertiseAddr = ahost, AdvertisePort = aport, BindAddr = bhost, BindPort = bport,
            EventCh = Some \<lparr>capacity = 3, closed = False\<rparr>, NodeName = Id m,
            Tags_cfg = Tags m\<rparr> = Inr t"
  shows "Start env s =
           (let s2 = s\<lparr>events := Some \<lparr>capacity = 3, closed = False\<rparr>, serf := Some t,
                       loops := Suc (loops s),
                       trace := trace s @
                         [LogPrintf ''[INFO] serf discovery started, current member addr:%s, advertise addr:%s\<newline>''
                            [S (Addr m), S (Advertise m)]]\<rparr>
            in if Routers m = [] then Inr (None, s2)
               else (case Join env s2 (strings_Split (Routers m) (CHR '','')) of
                       Inl p \<Rightarrow> Inl p
                     | Inr (err, s3) \<Rightarrow> Inr (None, s3)))"
  using assms by (simp add: Start_def Let_def GetTags_def)

lemma Join_started:
  assumes "serf s = Some t"
  shows "Join env s seeds =
           Inr (snd (fst (serf_Join env t seeds True)),
                s\<lparr>serf := Some (snd (serf_Join env t seeds True)),
                  trace := trace s @ [TransportJoin seeds True]\<rparr>)"
  using assms by (simp add: Join_def split: prod.splits)

lemma Start_ok_events:
  assumes ok: "Start env s = Inr (None, s')"
  shows "events s' = Some \<lparr>capacity = 3, closed = False\<rparr>"
proof (cases "member_loc s")
  case None
  with ok show ?thesis by (simp add: Start_nil_member)
next
  case (Some m)
  show ?thesis
  proof (cases "splitHostPort env (Advertise m)")
    case (Inl e)
    with ok Some show ?thesis by (simp add: Start_advertise_error)
  next
    case a: (Inr ap)
    obtain ahost aport where ap: "ap = (ahost, aport)" by (cases ap)
    show ?thesis
    proof (cases "splitHostPort env (Addr m)")
      case (Inl e)
      with ok Some a ap show ?thesis by (simp add: Start_addr_error)
    next
      case b: (Inr bp)
      obtain bhost bport where bp: "bp = (bhost, bport)" by (cases bp)
      show ?thesis
      proof (cases "serf_Create env
           \<lparr>AdvertiseAddr = ahost, AdvertisePort = aport, BindAddr = bhost, BindPort = bport,
            EventCh = Some \<lparr>capacity = 3, closed = False\<rparr>, NodeName = Id m,
            Tags_cfg = Tags m\<rparr>")
        case (Inl e)
        from Start_create_error [OF Some a [unfolded ap] b [unfolded bp] Inl] ok
        show ?thesis by simp
      next
        case (Inr t)
        from Start_created [OF Some a [unfolded ap] b [unfolded bp] Inr] ok
        show ?thesis
          by (cases "Routers m = []") (auto simp add: Let_def Join_started)
      qed
    qed
  qed
qed

text \<open>
  C8: \<^verbatim>\<open>Stop\<close> guards the shutdown of the transport with a nil test, and closes the
  event channel with no test at all. On a Serf that was never started the channel is
  nil, and closing it panics: \<^verbatim>\<open>Stop\<close> fails whenever the channel has not been created.
  After a \<^verbatim>\<open>Start\<close> that returned no error the channel exists and is open, and
  \<^verbatim>\<open>Stop\<close> closes it.
\<close>

theorem C8_stop_needs_start:
  "Stop env (NewSerf local) = Inl CloseNilChannel \<and>
   (events s = None \<longrightarrow> Stop env s = Inl CloseNilChannel) \<and>
   (Start env s = Inr (None, s') \<longrightarrow>
      (\<exists>s''. Stop env s' = Inr s'' \<and> events s'' = Some \<lparr>capacity = 3, closed = True\<rparr>))"
proof -
  have a: "Stop env (NewSerf local) = Inl CloseNilChannel"
    by (simp add: Stop_def NewSerf_def)
  have b: "events s = None \<longrightarrow> Stop env s = Inl CloseNilChannel"
    by (simp add: Stop_def Let_def split: option.splits)
  have c: "\<exists>s''. Stop env s' = Inr s'' \<and> events s'' = Some \<lparr>capacity = 3, closed = True\<rparr>"
    if "Start env s = Inr (None, s')"
    using Start_ok_events [OF that]
    by (cases "serf s'") (auto simp add: Stop_def Let_def)
  from a b c show ?thesis by blast
qed


lemma example_seeds:
  "strings_Split ''10.0.0.2:7946,10.0.0.3:7946'' (CHR '','') = [''10.0.0.2:7946'', ''10.0.0.3:7946'']"
  by simp

lemma example_split:
  "splitHostPort example_env ''10.0.0.1:7946'' = Inr (''10.0.0.1'', 7946)"
  "splitHostPort example_env ''10.0.0.1:http'' = Inl ErrParsePort"
  "splitHostPort example_env ''10.0.0.1'' = Inl ErrParseAddrToHostPort"
  by (simp_all add: splitHostPort_def example_env_def)

lemma example_Start:
  "Start example_env
     (NewSerf (Some (local_node ''10.0.0.1:7946'' ''10.0.0.1:7946'')) :: (nat, nat) Serf) =
   Inr (None,
     \<lparr>events = Some \<lparr>capacity = 3, closed = False\<rparr>,
      member_loc = Some (local_node ''10.0.0.1:7946'' ''10.0.0.1:7946''),
      serf = Some 1, handler = None, members = Map.empty, loops = 1,
      trace =
        [LogPrintf ''[INFO] serf discovery started, current member addr:%s, advertise addr:%s\<newline>''
           [S ''10.0.0.1:7946'', S ''10.0.0.1:7946''],
         TransportJoin [''10.0.0.2:7946'', ''10.0.0.3:7946''] True]\<rparr>)"
proof -
  let ?l = "local_node ''10.0.0.1:7946'' ''10.0.0.1:7946''"
  have m: "member_loc (NewSerf (Some ?l) :: (nat, nat) Serf) = Some ?l"
    by (simp add: NewSerf_def)
  have a: "splitHostPort example_env (Advertise ?l) = Inr (''10.0.0.1'', 7946)"
    by (simp add: local_node_def example_split)
  have b: "splitHostPort example_env (Addr ?l) = Inr (''10.0.0.1'', 7946)"
    by (simp add: local_node_def example_split)
  have c: "serf_Create example_env
           \<lparr>AdvertiseAddr = ''10.0.0.1'', AdvertisePort = 7946, BindAddr = ''10.0.0.1'',
            BindPort = 7946, EventCh = Some \<lparr>capacity = 3, closed = False\<rparr>, NodeName = Id ?l,
            Tags_cfg = Tags ?l\<rparr> = Inr 0"
    by (simp add: example_env_def)
  have r: "Routers ?l = ''10.0.0.2:7946,10.0.0.3:7946''" "Addr ?l = ''10.0.0.1:7946''"
    "Advertise ?l = ''10.0.0.1:7946''"
    by (simp_all add: local_node_def)
  have j: "serf_Join example_env t seeds True = ((0, Some (OtherErr ''no seed reachable'')), Suc t)"
    for t seeds
    by (simp add: example_env_def)
  show ?thesis
    unfolding Start_created [OF m a b c] r example_seeds
    by (simp add: Join_started j NewSerf_def)
qed

theorem C8_stop_needs_start_witness:
  "Stop example_env (SetHandler (NewSerf (Some (local_node ''10.0.0.1:7946'' ''10.0.0.1:7946'')))
      (Some rejecting_handler)) = Inl CloseNilChannel \<and>
   (\<exists>s' s''.
      Start example_env (NewSerf (Some (local_node ''10.0.0.1:7946'' ''10.0.0.1:7946'')) :: (nat, nat) Serf) =
        Inr (None, s') \<and>
      Stop example_env s' = Inr s'' \<and> events s'' = Some \<lparr>capacity = 3, closed = True\<rparr>)"
proof -
  let ?l = "local_node ''10.0.0.1:7946'' ''10.0.0.1:7946''"
  let ?h = "SetHandler (NewSerf (Some ?l)) (Some rejecting_handler) :: (nat, nat) Serf"
  let ?s = "NewSerf (Some ?l) :: (nat, nat) Serf"
  have "events ?h = None"
    by (simp add: SetHandler_def NewSerf_def)
  with C8_stop_needs_start [of example_env None ?h]
  have a: "Stop example_env ?h = Inl CloseNilChannel"
    by blast
  obtain s' where s': "Start example_env ?s = Inr (None, s')"
    using example_Start by blast
  with C8_stop_needs_start [of example_env None ?s s']
  have "\<exists>s''. Stop example_env s' = Inr s'' \<and> events s'' = Some \<lparr>capacity = 3, closed = True\<rparr>"
    by blast
  with a s' show ?thesis by blast
qed

text \<open>
  C9: the local node has seeds configured, its two addresses parse and the transport is
  created. When the transport's join against the seeds fails with an error, \<^verbatim>\<open>Join\<close>
  returns that error to \<^verbatim>\<open>Start\<close>, and \<^verbatim>\<open>Start\<close> drops it and returns no error.
\<close>

theorem C9_start_discards_join_error:
  assumes "member_loc s = Some m"
    and "splitHostPort env (Advertise m) = Inr (ahost, aport)"
    and "splitHostPort env (Addr m) = Inr (bhost, bport)"
    and "serf_Create env
           \<lparr>AdvertiseAddr = ahost, AdvertisePort = aport, BindAddr = bhost, BindPort = bport,
            EventCh = Some \<lparr>capacity = 3, closed = False\<rparr>, NodeName = Id m,
            Tags_cfg = Tags m\<rparr> = Inr t"
    and "Routers m \<noteq> []"
    and "serf_Join env t (strings_Split (Routers m) (CHR '','')) True = ((n, Some err), t')"
  shows "\<exists>s2 s3. serf s2 = Some t \<and>
           Join env s2 (strings_Split (Routers m) (CHR '','')) = Inr (Some err, s3) \<and>
           Start env s = Inr (None, s3)"
proof -
  let ?s2 = "s\<lparr>events := Some \<lparr>capacity = 3, closed = False\<rparr>, serf := Some t,
                       loops := Suc (loops s),
                       trace := trace s @
                         [LogPrintf ''[INFO] serf discovery started, current member addr:%s, advertise addr:%s\<newline>''
                            [S (Addr m), S (Advertise m)]]\<rparr>"
  let ?seeds = "strings_Split (Routers m) (CHR '','')"
  let ?s3 = "?s2\<lparr>serf := Some t', trace := trace ?s2 @ [TransportJoin ?seeds True]\<rparr>"
  have s2: "serf ?s2 = Some t" by simp
  have j: "Join env ?s2 ?seeds = Inr (Some err, ?s3)"
    unfolding Join_started [OF s2] using assms(6) by simp
  have "Start env s = Inr (None, ?s3)"
    unfolding Start_created [OF assms(1-4)] Let_def using assms(5) j by simp
  with s2 j show ?thesis by blast
qed

theorem C9_start_discards_join_error_witness:
  "\<exists>s2 s3. serf s2 = Some 0 \<and>
     Join example_env s2 [''10.0.0.2:7946'', ''10.0.0.3:7946''] =
       Inr (Some (OtherErr ''no seed reachable''), s3) \<and>
     Start example_env
       (NewSerf (Some (local_node ''10.0.0.1:7946'' ''10.0.0.1:7946'')) :: (nat, nat) Serf) =
       Inr (None, s3)"
proof -
  let ?l = "local_node ''10.0.0.1:7946'' ''10.0.0.1:7946''"
  have m: "member_loc (NewSerf (Some ?l) :: (nat, nat) Serf) = Some ?l"
    by (simp add: NewSerf_def)
  have a: "splitHostPort example_env (Advertise ?l) = Inr (''10.0.0.1'', 7946)"
    by (simp add: local_node_def example_split)
  have b: "splitHostPort example_env (Addr ?l) = Inr (''10.0.0.1'', 7946)"
    by (simp add: local_node_def example_split)
  have c: "serf_Create example_env
           \<lparr>AdvertiseAddr = ''10.0.0.1'', AdvertisePort = 7946, BindAddr = ''10.0.0.1'',
            BindPort = 7946, EventCh = Some \<lparr>capacity = 3, closed = False\<rparr>, NodeName = Id ?l,
            Tags_cfg = Tags ?l\<rparr> = Inr 0"
    by (simp add: example_env_def)
  have r: "Routers ?l \<noteq> []"
    by (simp add: local_node_def)
  have seeds: "strings_Split (Routers ?l) (CHR '','') = [''10.0.0.2:7946'', ''10.0.0.3:7946'']"
    by (simp add: local_node_def)
  have j: "serf_Join example_env 0 (strings_Split (Routers ?l) (CHR '','')) True =
      ((0, Some (OtherErr ''no seed reachable'')), 1)"
    by (simp add: example_env_def)
  from C9_start_discards_join_error [OF m a b c r j]
  show ?thesis unfolding seeds .
qed

text \<open>
  C4: \<^verbatim>\<open>splitHostPort\<close> answers \<open>ErrParseAddrToHostPort\<close> when the address is not a
  host:port pair and \<open>ErrParsePort\<close> when the pair's port is not a number; it has no
  other error, and the two are different. \<^verbatim>\<open>Start\<close> parses the advertise address and then
  the bind address: when the first of them that fails does so with \<open>e\<close>, \<^verbatim>\<open>Start\<close> returns
  \<open>e\<close>, having only created the event channel: no loop is launched, the transport is not
  created and no step is taken.
\<close>

theorem C4_malformed_address:
  assumes "member_loc s = Some m"
  shows
    "(isl (net_SplitHostPort env a) \<longrightarrow> splitHostPort env a = Inl ErrParseAddrToHostPort) \<and>
     (net_SplitHostPort env a = Inr (h, p) \<and> isl (strconv_Atoi env p) \<longrightarrow>
        splitHostPort env a = Inl ErrParsePort) \<and>
     (isl (splitHostPort env a) \<longrightarrow>
        splitHostPort env a = Inl ErrParseAddrToHostPort \<or>
        splitHostPort env a = Inl ErrParsePort) \<and>
     ErrParseAddrToHostPort \<noteq> ErrParsePort \<and>
     (splitHostPort env (Advertise m) = Inl e \<or>
      \<not> isl (splitHostPort env (Advertise m)) \<and> splitHostPort env (Addr m) = Inl e \<longrightarrow>
        (\<exists>s'. Start env s = Inr (Some e, s') \<and>
              s' = s\<lparr>events := Some \<lparr>capacity = 3, closed = False\<rparr>\<rparr> \<and>
              loops s' = loops s \<and> serf s' = serf s \<and> trace s' = trace s))"
proof -
  have a: "isl (net_SplitHostPort env a) \<longrightarrow> splitHostPort env a = Inl ErrParseAddrToHostPort"
    by (cases "net_SplitHostPort env a") (simp_all add: splitHostPort_def)
  have b: "net_SplitHostPort env a = Inr (h, p) \<and> isl (strconv_Atoi env p) \<longrightarrow>
        splitHostPort env a = Inl ErrParsePort"
    by (cases "strconv_Atoi env p") (simp_all add: splitHostPort_def)
  have c: "isl (splitHostPort env a) \<longrightarrow>
        splitHostPort env a = Inl ErrParseAddrToHostPort \<or>
        splitHostPort env a = Inl ErrParsePort"
    by (simp add: splitHostPort_def split: sum.splits prod.splits)
  have d: "\<exists>s'. Start env s = Inr (Some e, s') \<and>
              s' = s\<lparr>events := Some \<lparr>capacity = 3, closed = False\<rparr>\<rparr> \<and>
              loops s' = loops s \<and> serf s' = serf s \<and> trace s' = trace s"
    if bad: "splitHostPort env (Advertise m) = Inl e \<or>
      \<not> isl (splitHostPort env (Advertise m)) \<and> splitHostPort env (Addr m) = Inl e"
    using bad
  proof
    assume "splitHostPort env (Advertise m) = Inl e"
    from Start_advertise_error [OF assms this] show ?thesis by simp
  next
    assume h: "\<not> isl (splitHostPort env (Advertise m)) \<and> splitHostPort env (Addr m) = Inl e"
    then obtain ahost aport where "splitHostPort env (Advertise m) = Inr (ahost, aport)"
      by (cases "splitHostPort env (Advertise m)") auto
    from Start_addr_error [OF assms this] h show ?thesis by simp
  qed
  from a b c d show ?thesis by blast
qed

theorem C4_malformed_address_witness:
  "Start example_env
     (NewSerf (Some (local_node ''10.0.0.1:7946'' ''10.0.0.1'')) :: (nat, nat) Serf) =
     Inr (Some ErrParseAddrToHostPort,
          (NewSerf (Some (local_node ''10.0.0.1:7946'' ''10.0.0.1'')))
            \<lparr>events := Some \<lparr>capacity = 3, closed = False\<rparr>\<rparr>) \<and>
   Start example_env
     (NewSerf (Some (local_node ''10.0.0.1:http'' ''10.0.0.1:7946'')) :: (nat, nat) Serf) =
     Inr (Some ErrParsePort,
          (NewSerf (Some (local_node ''10.0.0.1:http'' ''10.0.0.1:7946'')))
            \<lparr>events := Some \<lparr>capacity = 3, closed = False\<rparr>\<rparr>) \<and>
   loops ((NewSerf (Some (local_node ''10.0.0.1:7946'' ''10.0.0.1'')) :: (nat, nat) Serf)
            \<lparr>events := Some \<lparr>capacity = 3, closed = False\<rparr>\<rparr>) = 0"
proof -
  let ?l1 = "local_node ''10.0.0.1:7946'' ''10.0.0.1''"
  let ?l2 = "local_node ''10.0.0.1:http'' ''10.0.0.1:7946''"
  let ?s1 = "NewSerf (Some ?l1) :: (nat, nat) Serf"
  let ?s2 = "NewSerf (Some ?l2) :: (nat, nat) Serf"
  have m1: "member_loc ?s1 = Some ?l1" and m2: "member_loc ?s2 = Some ?l2"
    by (simp_all add: NewSerf_def)
  have bad1: "splitHostPort example_env (Advertise ?l1) = Inl ErrParseAddrToHostPort"
    by (simp add: local_node_def example_split)
  have bad2: "\<not> isl (splitHostPort example_env (Advertise ?l2)) \<and>
      splitHostPort example_env (Addr ?l2) = Inl ErrParsePort"
    by (simp add: local_node_def example_split)
  from C4_malformed_address [OF m1, of example_env "''10.0.0.1''" "''10.0.0.1''" "''http''" ErrParseAddrToHostPort] bad1
  have r1: "Start example_env ?s1 =
      Inr (Some ErrParseAddrToHostPort, ?s1\<lparr>events := Some \<lparr>capacity = 3, closed = False\<rparr>\<rparr>)"
    by blast
  from C4_malformed_address [OF m2, of example_env "''10.0.0.1:http''" "''10.0.0.1''" "''http''" ErrParsePort] bad2
  have r2: "Start example_env ?s2 =
      Inr (Some ErrParsePort, ?s2\<lparr>events := Some \<lparr>capacity = 3, closed = False\<rparr>\<rparr>)"
    by blast
  have "loops (?s1\<lparr>events := Some \<lparr>capacity = 3, closed = False\<rparr>\<rparr>) = 0"
    by (simp add: NewSerf_def)
  with r1 r2 show ?thesis by blast
qed

text \<open>
  C3, amended: \<^verbatim>\<open>Join\<close> on a created transport forwards the seeds to the transport's
  \<^verbatim>\<open>Join(existing, ignoreOld)\<close> with \<open>ignoreOld = True\<close>: the ignore-old option is
  enabled, so what happened in the cluster before the join is not replayed to the
  joining node. The error that the transport returns, or nil, is returned as it is.
\<close>

theorem C3_join_forwards_ignore_old:
  assumes "serf s = Some t" and "serf_Join env t seeds True = ((n, err), t')"
  shows "Join env s seeds =
           Inr (err, s\<lparr>serf := Some t', trace := trace s @ [TransportJoin seeds True]\<rparr>)"
  using assms by (simp add: Join_def)

theorem C3_join_forwards_ignore_old_witness:
  "Join example_env ((NewSerf None :: (nat, nat) Serf)\<lparr>serf := Some 0\<rparr>)
     [''10.0.0.2:7946'', ''10.0.0.3:7946''] =
   Inr (Some (OtherErr ''no seed reachable''),
        (NewSerf None)\<lparr>serf := Some 1,
          trace := [TransportJoin [''10.0.0.2:7946'', ''10.0.0.3:7946''] True]\<rparr>)"
proof -
  let ?s = "(NewSerf None :: (nat, nat) Serf)\<lparr>serf := Some 0\<rparr>"
  have a: "serf ?s = Some 0" by simp
  have b: "serf_Join example_env 0 [''10.0.0.2:7946'', ''10.0.0.3:7946''] True =
      ((0, Some (OtherErr ''no seed reachable'')), 1)"
    by (simp add: example_env_def)
  from C3_join_forwards_ignore_old [OF a b]
  show ?thesis by (simp add: NewSerf_def)
qed

text \<open>
  C3 as stated has the ignore-old option disabled. The request that the code forwards
  carries \<open>True\<close> for it, not \<open>False\<close>.
\<close>

theorem C3_join_ignore_old_counterexample:
  "Join example_env ((NewSerf None :: (nat, nat) Serf)\<lparr>serf := Some 0\<rparr>) [''10.0.0.2:7946''] =
     Inr (Some (OtherErr ''no seed reachable''),
          (NewSerf None)\<lparr>serf := Some 1, trace := [TransportJoin [''10.0.0.2:7946''] True]\<rparr>) \<and>
   Join example_env ((NewSerf None :: (nat, nat) Serf)\<lparr>serf := Some 0\<rparr>) [''10.0.0.2:7946''] \<noteq>
     Inr (Some (OtherErr ''no seed reachable''),
          (NewSerf None)\<lparr>serf := Some 1, trace := [TransportJoin [''10.0.0.2:7946''] False]\<rparr>)"
  by (simp add: Join_def example_env_def NewSerf_def)

end
